theory Spec2Isabelle
  imports Main "HOL-Library.AList"
begin

section \<open>Values\<close>

text \<open>
  The handler of \<^verbatim>\<open>functions/main.py\<close> works on parsed JSON: the request body, the
  token response of the provider and the claims of the identity token. A parsed JSON
  value is one of Python's \<^verbatim>\<open>None\<close>, \<^verbatim>\<open>bool\<close>, number, \<^verbatim>\<open>str\<close>, \<^verbatim>\<open>list\<close> and \<^verbatim>\<open>dict\<close>.
  A \<^verbatim>\<open>dict\<close> is the list of its items in insertion order (its keys are distinct).
  Of a number the code only ever reads whether it is zero, so numbers are integers.
\<close>

datatype json =
    JNull
  | JBool bool
  | JNum int
  | JStr string
  | JArr "json list"
  | JObj "(string \<times> json) list"

type_synonym dict = "(string \<times> json) list"

text \<open>Python's truth value of a parsed JSON value (\<^verbatim>\<open>if x\<close>, \<^verbatim>\<open>not x\<close>, \<^verbatim>\<open>x or y\<close>).\<close>

fun truthy :: "json \<Rightarrow> bool" where
  "truthy JNull = False"
| "truthy (JBool b) = b"
| "truthy (JNum n) = (n \<noteq> 0)"
| "truthy (JStr s) = (s \<noteq> [])"
| "truthy (JArr xs) = (xs \<noteq> [])"
| "truthy (JObj kvs) = (kvs \<noteq> [])"

text \<open>\<^verbatim>\<open>d.get(k)\<close> on a dict: the value, or \<^verbatim>\<open>None\<close> when the key is missing.\<close>

definition dict_get :: "dict \<Rightarrow> string \<Rightarrow> json" where
  "dict_get d k = (case map_of d k of None \<Rightarrow> JNull | Some v \<Rightarrow> v)"

text \<open>\<^verbatim>\<open>k in d\<close> on a dict.\<close>

definition dict_has :: "dict \<Rightarrow> string \<Rightarrow> bool" where
  "dict_has d k = (map_of d k \<noteq> None)"

text \<open>The name of the Python type of a value, as it is printed in error messages.\<close>

fun type_name :: "json \<Rightarrow> string" where
  "type_name JNull = ''NoneType''"
| "type_name (JBool b) = ''bool''"
| "type_name (JNum n) = ''int''"
| "type_name (JStr s) = ''str''"
| "type_name (JArr xs) = ''list''"
| "type_name (JObj kvs) = ''dict''"

text \<open>A name between single quotes, as Python prints it in a message.\<close>

definition quoted :: "string \<Rightarrow> string" where
  "quoted s = CHR 0x27 # s @ [CHR 0x27]"

section \<open>Exceptions\<close>

text \<open>
  The exception classes that can reach the \<^verbatim>\<open>except\<close> clauses of the handler. The
  classes of \<^verbatim>\<open>requests\<close> and of PyJWT are those of the libraries:
  \<^item> \<^verbatim>\<open>requests.HTTPError\<close> is what \<^verbatim>\<open>raise_for_status\<close> raises; \<^verbatim>\<open>ConnectionError\<close>,
    \<^verbatim>\<open>Timeout\<close> and \<^verbatim>\<open>requests.JSONDecodeError\<close> are its siblings under
    \<^verbatim>\<open>RequestException\<close>, not its subclasses;
  \<^item> \<^verbatim>\<open>jwt.InvalidTokenError\<close> has the subclasses \<^verbatim>\<open>DecodeError\<close>,
    \<^verbatim>\<open>InvalidSignatureError\<close>, \<^verbatim>\<open>ExpiredSignatureError\<close>, \<^verbatim>\<open>ImmatureSignatureError\<close>,
    \<^verbatim>\<open>InvalidAudienceError\<close>, \<^verbatim>\<open>InvalidIssuerError\<close>, \<^verbatim>\<open>InvalidAlgorithmError\<close> and
    \<^verbatim>\<open>MissingRequiredClaimError\<close>;
  \<^item> \<^verbatim>\<open>jwt.PyJWKClientError\<close> (no key of the key set matches the key id of the token, or
    the key set has no usable key) and its subclass \<^verbatim>\<open>PyJWKClientConnectionError\<close> (the
    key set could not be fetched) derive from \<^verbatim>\<open>PyJWTError\<close> directly: they are not
    \<^verbatim>\<open>InvalidTokenError\<close>s.
  Every class here derives from \<^verbatim>\<open>Exception\<close>.
\<close>

datatype exn_class =
    HTTPError
  | ConnectionError
  | Timeout
  | RequestsJSONDecodeError
  | InvalidTokenError
  | DecodeError
  | InvalidSignatureError
  | ExpiredSignatureError
  | ImmatureSignatureError
  | InvalidAudienceError
  | InvalidIssuerError
  | InvalidAlgorithmError
  | MissingRequiredClaimError
  | PyJWKClientError
  | PyJWKClientConnectionError
  | ValueError
  | TypeError
  | AttributeError
  | OtherException

text \<open>An exception: its class and its message \<^verbatim>\<open>str(e)\<close>.\<close>

datatype exn = Exn (cls: exn_class) (str: string)

text \<open>The message of the \<^verbatim>\<open>AttributeError\<close> for a method the value does not have.\<close>

definition no_attribute :: "string \<Rightarrow> string \<Rightarrow> string" where
  "no_attribute ty attr = quoted ty @ '' object has no attribute '' @ quoted attr"

text \<open>\<^verbatim>\<open>except requests.HTTPError\<close> matches:\<close>

fun is_HTTPError :: "exn_class \<Rightarrow> bool" where
  "is_HTTPError HTTPError = True"
| "is_HTTPError c = False"

text \<open>\<^verbatim>\<open>except jwt.InvalidTokenError\<close> matches:\<close>

fun is_InvalidTokenError :: "exn_class \<Rightarrow> bool" where
  "is_InvalidTokenError InvalidTokenError = True"
| "is_InvalidTokenError DecodeError = True"
| "is_InvalidTokenError InvalidSignatureError = True"
| "is_InvalidTokenError ExpiredSignatureError = True"
| "is_InvalidTokenError ImmatureSignatureError = True"
| "is_InvalidTokenError InvalidAudienceError = True"
| "is_InvalidTokenError InvalidIssuerError = True"
| "is_InvalidTokenError InvalidAlgorithmError = True"
| "is_InvalidTokenError MissingRequiredClaimError = True"
| "is_InvalidTokenError c = False"

section \<open>Configuration\<close>

text \<open>
  The module-level constants read from the environment. \<^verbatim>\<open>os.environ.get(name, '')\<close>
  is a string, empty when the variable is unset; \<^verbatim>\<open>CUSTOM_CLAIM_NAME\<close> defaults to
  \<^verbatim>\<open>None\<close>.
\<close>

record config =
  OAUTH_ISSUER_URL :: string
  OAUTH_CLIENT_ID :: string
  OAUTH_CLIENT_SECRET :: string
  OAUTH_REDIRECT_URI :: string
  CUSTOM_CLAIM_NAME :: "string option"

section \<open>The derived user identifier\<close>

text \<open>
  \<^verbatim>\<open>s.split(sep)\<close> for a one-character separator: the pieces between the separators,
  never an empty list.
\<close>

fun split :: "char \<Rightarrow> string \<Rightarrow> string list" where
  "split c [] = [[]]"
| "split c (x # xs) =
     (if x = c then [] # split c xs
      else (case split c xs of [] \<Rightarrow> [[x]] | p # ps \<Rightarrow> (x # p) # ps))"

text \<open>
  \<^verbatim>\<open>auth_uid = subject.split('|')[-1] if '|' in subject else subject\<close>, for a subject
  that is a string.
\<close>

definition auth_uid :: "string \<Rightarrow> string" where
  "auth_uid subject =
     (if CHR ''|'' \<in> set subject then last (split CHR ''|'' subject) else subject)"

section \<open>The collaborators\<close>

text \<open>
  The libraries the code calls are not part of the repository. Each call is a function of
  its arguments that returns a value or raises; the record \<open>world\<close> holds one such
  function for every call, so that a theorem about the handler holds whatever the
  provider, the key set, the store and the signer answer.
\<close>

text \<open>
  What \<^verbatim>\<open>requests.post\<close> returns: the status code, the message \<^verbatim>\<open>raise_for_status\<close>
  builds from status, reason and URL, and what \<^verbatim>\<open>response.json()\<close> gives.
\<close>

record http_response =
  status_code :: nat
  http_error_msg :: string
  json_result :: "exn + json"

text \<open>
  \<^verbatim>\<open>response.raise_for_status()\<close> of \<^verbatim>\<open>requests\<close>: an \<^verbatim>\<open>HTTPError\<close> for a status from
  400 to 599, nothing otherwise.
\<close>

definition raise_for_status :: "http_response \<Rightarrow> exn option" where
  "raise_for_status r =
     (if 400 \<le> status_code r \<and> status_code r < 600
      then Some (Exn HTTPError (http_error_msg r)) else None)"

type_synonym signing_key = string

text \<open>
  A field of the profile written to the store: a claim value, or the sentinel
  \<^verbatim>\<open>firestore.SERVER_TIMESTAMP\<close>.
\<close>

datatype field_value = Val json | SERVER_TIMESTAMP

type_synonym profile = "(string \<times> field_value) list"

record world =
  requests_post :: "string \<Rightarrow> dict \<Rightarrow> exn + http_response"
  get_signing_key_from_jwt :: "string \<Rightarrow> json \<Rightarrow> exn + signing_key"
  jwt_decode :: "json \<Rightarrow> signing_key \<Rightarrow> string list \<Rightarrow> string \<Rightarrow> string \<Rightarrow> exn + dict"
  firestore_client :: "exn option"
  document_set :: "json \<Rightarrow> profile \<Rightarrow> exn option"
  auth_create_custom_token :: "json \<Rightarrow> dict option \<Rightarrow> exn + string"

text \<open>
  The calls a request makes, in order, with their arguments:
  \<^item> \<open>RequestsPost url data timeout\<close>: the token exchange;
  \<^item> \<open>GetSigningKeyFromJwt jwks_url token\<close>: the fetch of the key set and the choice of
    the key named by the token header;
  \<^item> \<open>JwtDecode token key algorithms audience issuer\<close>;
  \<^item> \<open>FirestoreClient\<close>;
  \<^item> \<open>DocumentSet collection document data merge\<close>: the write of the user record;
  \<^item> \<open>AuthCreateCustomToken uid developer_claims\<close>: the mint of the credential.
\<close>

datatype call =
    RequestsPost string dict nat
  | GetSigningKeyFromJwt string json
  | JwtDecode json signing_key "string list" string string
  | FirestoreClient
  | DocumentSet string json profile bool
  | AuthCreateCustomToken json "dict option"

text \<open>A computation that raises or returns, and the calls it has made.\<close>

type_synonym 'a result = "(exn + 'a) \<times> call list"

section \<open>The four stages\<close>

text \<open>\<^verbatim>\<open>exchange_code_for_tokens(code, code_verifier, redirect_uri)\<close>\<close>

definition exchange_code_for_tokens ::
  "config \<Rightarrow> world \<Rightarrow> json \<Rightarrow> json \<Rightarrow> json \<Rightarrow> json result" where
  "exchange_code_for_tokens cfg w code code_verifier redirect_uri =
     (let token_url = OAUTH_ISSUER_URL cfg @ ''/oidc/token'';
          effective_redirect_uri =
            (if truthy redirect_uri then redirect_uri else JStr (OAUTH_REDIRECT_URI cfg));
          payload =
            [(''grant_type'', JStr ''authorization_code''),
             (''code'', code),
             (''code_verifier'', code_verifier),
             (''client_id'', JStr (OAUTH_CLIENT_ID cfg)),
             (''client_secret'', JStr (OAUTH_CLIENT_SECRET cfg)),
             (''redirect_uri'', effective_redirect_uri)];
          calls = [RequestsPost token_url payload 10]
      in case requests_post w token_url payload of
           Inl e \<Rightarrow> (Inl e, calls)
         | Inr response \<Rightarrow>
             (case raise_for_status response of
                Some e \<Rightarrow> (Inl e, calls)
              | None \<Rightarrow> (json_result response, calls)))"

text \<open>\<^verbatim>\<open>verify_id_token(id_token)\<close>\<close>

definition verify_id_token :: "config \<Rightarrow> world \<Rightarrow> json \<Rightarrow> dict result" where
  "verify_id_token cfg w id_token =
     (let jwks_url = OAUTH_ISSUER_URL cfg @ ''/oidc/jwks'';
          lookup = GetSigningKeyFromJwt jwks_url id_token
      in case get_signing_key_from_jwt w jwks_url id_token of
           Inl e \<Rightarrow> (Inl e, [lookup])
         | Inr key \<Rightarrow>
             (jwt_decode w id_token key [''RS256''] (OAUTH_CLIENT_ID cfg) (OAUTH_ISSUER_URL cfg),
              [lookup,
               JwtDecode id_token key [''RS256''] (OAUTH_CLIENT_ID cfg) (OAUTH_ISSUER_URL cfg)]))"

text \<open>
  \<^verbatim>\<open>CUSTOM_CLAIM_NAME and CUSTOM_CLAIM_NAME in claims\<close>: the name is set, not empty,
  and a key of the claims. The result is the name.
\<close>

definition custom_claim :: "config \<Rightarrow> dict \<Rightarrow> string option" where
  "custom_claim cfg claims =
     (case CUSTOM_CLAIM_NAME cfg of
        None \<Rightarrow> None
      | Some n \<Rightarrow> (if n \<noteq> [] \<and> dict_has claims n then Some n else None))"

text \<open>
  The identifier of a subject that passed \<^verbatim>\<open>if not subject\<close>. \<^verbatim>\<open>'|' in subject\<close> is a
  substring test on a string, a membership test on a list, a key test on a dict and a
  \<^verbatim>\<open>TypeError\<close> on a number or a boolean; \<^verbatim>\<open>split\<close> exists on strings only.
\<close>

fun derive_auth_uid :: "json \<Rightarrow> exn + json" where
  "derive_auth_uid (JStr s) = Inr (JStr (auth_uid s))"
| "derive_auth_uid (JArr xs) =
     (if JStr ''|'' \<in> set xs
      then Inl (Exn AttributeError (no_attribute ''list'' ''split''))
      else Inr (JArr xs))"
| "derive_auth_uid (JObj kvs) =
     (if dict_has kvs ''|''
      then Inl (Exn AttributeError (no_attribute ''dict'' ''split''))
      else Inr (JObj kvs))"
| "derive_auth_uid v =
     Inl (Exn TypeError (''argument of type '' @ quoted (type_name v) @ '' is not iterable''))"

text \<open>
  Sequencing inside the \<^verbatim>\<open>try\<close> block: an exception ends the block, otherwise the next
  statement runs and its calls follow.
\<close>

definition bind :: "'a result \<Rightarrow> ('a \<Rightarrow> 'b result) \<Rightarrow> 'b result" where
  "bind m f =
     (case m of
        (Inl e, t) \<Rightarrow> (Inl e, t)
      | (Inr a, t) \<Rightarrow> (case f a of (r, t') \<Rightarrow> (r, t @ t')))"

text \<open>
  The profile \<^verbatim>\<open>create_or_update_user\<close> writes: the whitelisted fields, then the custom
  claim (\<^verbatim>\<open>profile_data[CUSTOM_CLAIM_NAME] = claims[CUSTOM_CLAIM_NAME]\<close> overwrites a
  field of that name in place or adds one at the end), then the removal of the fields
  that are \<^verbatim>\<open>None\<close>.
\<close>

definition profile_data :: "config \<Rightarrow> dict \<Rightarrow> json \<Rightarrow> profile" where
  "profile_data cfg claims subject =
     (let fields =
            [(''sub'', Val subject),
             (''email'', Val (dict_get claims ''email'')),
             (''name'', Val (dict_get claims ''name'')),
             (''given_name'', Val (dict_get claims ''given_name'')),
             (''family_name'', Val (dict_get claims ''family_name'')),
             (''updated_at'', SERVER_TIMESTAMP)];
          with_custom =
            (case custom_claim cfg claims of
               None \<Rightarrow> fields
             | Some n \<Rightarrow> AList.update n (Val (dict_get claims n)) fields)
      in filter (\<lambda>(k, v). v \<noteq> Val JNull) with_custom)"

text \<open>\<^verbatim>\<open>create_or_update_user(claims)\<close>\<close>

definition create_or_update_user :: "config \<Rightarrow> world \<Rightarrow> dict \<Rightarrow> json result" where
  "create_or_update_user cfg w claims =
     (case firestore_client w of
        Some e \<Rightarrow> (Inl e, [FirestoreClient])
      | None \<Rightarrow>
          (let subject = dict_get claims ''sub'' in
           if \<not> truthy subject
           then (Inl (Exn ValueError ''ID token missing 'sub' claim''), [FirestoreClient])
           else
             (case derive_auth_uid subject of
                Inl e \<Rightarrow> (Inl e, [FirestoreClient])
              | Inr uid \<Rightarrow>
                  (let data = profile_data cfg claims subject;
                       calls = [FirestoreClient, DocumentSet ''users'' uid data True]
                   in case document_set w uid data of
                        Some e \<Rightarrow> (Inl e, calls)
                      | None \<Rightarrow> (Inr uid, calls)))))"

text \<open>
  The claim bag of \<^verbatim>\<open>create_custom_token\<close>, and what is passed as
  \<^verbatim>\<open>developer_claims\<close>: the bag, or \<^verbatim>\<open>None\<close> when it is empty.
\<close>

definition developer_claims :: "config \<Rightarrow> dict \<Rightarrow> dict" where
  "developer_claims cfg claims =
     (case custom_claim cfg claims of
        None \<Rightarrow> []
      | Some n \<Rightarrow> [(n, dict_get claims n)])"

definition developer_claims_arg :: "config \<Rightarrow> dict \<Rightarrow> dict option" where
  "developer_claims_arg cfg claims =
     (if developer_claims cfg claims \<noteq> [] then Some (developer_claims cfg claims) else None)"

text \<open>
  \<^verbatim>\<open>create_custom_token(uid, claims)\<close>. The signer's token is the string after the
  decoding of the bytes.
\<close>

definition create_custom_token :: "config \<Rightarrow> world \<Rightarrow> json \<Rightarrow> dict \<Rightarrow> string result" where
  "create_custom_token cfg w uid claims =
     (let arg = developer_claims_arg cfg claims
      in (auth_create_custom_token w uid arg, [AuthCreateCustomToken uid arg]))"

section \<open>The handler\<close>

text \<open>
  A response: the status, the dict that \<^verbatim>\<open>json.dumps\<close> turns into the body, and the
  headers.
\<close>

record response =
  status :: nat
  body :: dict
  headers :: "(string \<times> string) list"

definition json_response :: "dict \<Rightarrow> nat \<Rightarrow> response" where
  "json_response d st =
     \<lparr>status = st, body = d, headers = [(''Content-Type'', ''application/json'')]\<rparr>"

definition error_response :: "string \<Rightarrow> string \<Rightarrow> nat \<Rightarrow> response" where
  "error_response kind message st =
     json_response [(''error'', JStr kind), (''message'', JStr message)] st"

text \<open>
  A request is what \<^verbatim>\<open>req.get_json(silent=True)\<close> returns: the parsed body, or
  \<^verbatim>\<open>None\<close> when the body is missing, is not JSON or does not parse.
\<close>

type_synonym request = json

text \<open>\<^verbatim>\<open>x.get(...)\<close>, where only a dict has \<^verbatim>\<open>get\<close>.\<close>

fun as_dict :: "json \<Rightarrow> dict result" where
  "as_dict (JObj d) = (Inr d, [])"
| "as_dict v = (Inl (Exn AttributeError (no_attribute (type_name v) ''get'')), [])"

text \<open>\<^verbatim>\<open>not all([OAUTH_ISSUER_URL, OAUTH_CLIENT_ID, OAUTH_CLIENT_SECRET, OAUTH_REDIRECT_URI])\<close>\<close>

definition config_missing :: "config \<Rightarrow> bool" where
  "config_missing cfg =
     (\<not> list_all (\<lambda>v. v \<noteq> [])
        [OAUTH_ISSUER_URL cfg, OAUTH_CLIENT_ID cfg, OAUTH_CLIENT_SECRET cfg,
         OAUTH_REDIRECT_URI cfg])"

text \<open>The body of the \<^verbatim>\<open>try\<close> block: a response, or the exception that leaves it.\<close>

definition handleOAuthCallback_try :: "config \<Rightarrow> world \<Rightarrow> request \<Rightarrow> response result" where
  "handleOAuthCallback_try cfg w req =
     (if config_missing cfg
      then (Inr (error_response ''configuration_error''
                   ''Cloud Function not properly configured. Check environment variables.''
                   500), [])
      else
        (let request_json = req in
         if \<not> truthy request_json
         then (Inr (error_response ''invalid_request'' ''Request body must be JSON'' 400), [])
         else
           bind (as_dict request_json) (\<lambda>d.
             (let code = dict_get d ''code'';
                  code_verifier = dict_get d ''codeVerifier'';
                  redirect_uri = dict_get d ''redirectUri''
              in if \<not> truthy code \<or> \<not> truthy code_verifier
                 then (Inr (error_response ''invalid_request''
                              ''Missing code or codeVerifier'' 400), [])
                 else
                   bind (exchange_code_for_tokens cfg w code code_verifier redirect_uri)
                     (\<lambda>token_response.
                   bind (as_dict token_response) (\<lambda>tr.
                     (let id_token = dict_get tr ''id_token''
                      in if \<not> truthy id_token
                         then (Inr (error_response ''token_error''
                                      ''No ID token received'' 500), [])
                         else
                           bind (verify_id_token cfg w id_token) (\<lambda>decoded_claims.
                           bind (create_or_update_user cfg w decoded_claims) (\<lambda>uid.
                           bind (create_custom_token cfg w uid decoded_claims)
                             (\<lambda>custom_token.
                             (Inr (json_response
                                     [(''customToken'', JStr custom_token), (''uid'', uid)]
                                     200), [])))))))))))"

text \<open>
  \<^verbatim>\<open>handleOAuthCallback(req)\<close>: the \<^verbatim>\<open>try\<close> block and its three \<^verbatim>\<open>except\<close> clauses, in the
  order of the source. The result is the response and the calls made for the request.
\<close>

definition handleOAuthCallback :: "config \<Rightarrow> world \<Rightarrow> request \<Rightarrow> response \<times> call list" where
  "handleOAuthCallback cfg w req =
     (case handleOAuthCallback_try cfg w req of
        (Inr r, t) \<Rightarrow> (r, t)
      | (Inl e, t) \<Rightarrow>
          (if is_HTTPError (cls e)
           then error_response ''token_exchange_failed''
                  (''Failed to exchange authorization code: '' @ str e) 500
           else if is_InvalidTokenError (cls e)
           then error_response ''invalid_token''
                  (''ID token verification failed: '' @ str e) 401
           else error_response ''internal_error''
                  (''An unexpected error occurred: '' @ str e) 500,
           t))"

section \<open>Example deployments and requests\<close>

text \<open>A complete configuration that propagates the claim \<^verbatim>\<open>national_id\<close>.\<close>

definition example_config :: config where
  "example_config =
     \<lparr>OAUTH_ISSUER_URL = ''https://idp.example.com'',
      OAUTH_CLIENT_ID = ''client-1'',
      OAUTH_CLIENT_SECRET = ''s3cret'',
      OAUTH_REDIRECT_URI = ''https://app.example.com/callback'',
      CUSTOM_CLAIM_NAME = Some ''national_id''\<rparr>"

text \<open>The configuration of a deployment whose environment is not set.\<close>

definition unset_config :: config where
  "unset_config =
     \<lparr>OAUTH_ISSUER_URL = [], OAUTH_CLIENT_ID = [], OAUTH_CLIENT_SECRET = [],
      OAUTH_REDIRECT_URI = [], CUSTOM_CLAIM_NAME = None\<rparr>"

definition example_claims :: dict where
  "example_claims =
     [(''sub'', JStr ''idp|12345''),
      (''email'', JStr ''anna@example.com''),
      (''national_id'', JStr ''0101302989'')]"

text \<open>A world in which every collaborator answers and nothing fails.\<close>

definition example_world :: world where
  "example_world =
     \<lparr>requests_post = (\<lambda>url data.
        Inr \<lparr>status_code = 200, http_error_msg = [],
             json_result = Inr (JObj [(''id_token'', JStr ''eyJ.id.token''),
                                      (''access_token'', JStr ''at-1'')])\<rparr>),
      get_signing_key_from_jwt = (\<lambda>url token. Inr ''key-1''),
      jwt_decode = (\<lambda>token key algorithms audience issuer. Inr example_claims),
      firestore_client = None,
      document_set = (\<lambda>uid data. None),
      auth_create_custom_token = (\<lambda>uid claims. Inr ''custom.jwt.token'')\<rparr>"

definition example_request :: request where
  "example_request =
     JObj [(''code'', JStr ''auth-code-1''), (''codeVerifier'', JStr ''verifier-1'')]"

text \<open>
  The key id of the identity token names no key of the provider's key set:
  \<^verbatim>\<open>get_signing_key_from_jwt\<close> raises \<^verbatim>\<open>PyJWKClientError\<close>.
\<close>

definition unknown_kid_error :: exn where
  "unknown_kid_error =
     Exn PyJWKClientError
       (''Unable to find a signing key that matches: '' @ [CHR 0x22] @ ''kid-2'' @ [CHR 0x22])"

definition world_unknown_kid :: world where
  "world_unknown_kid =
     example_world\<lparr>get_signing_key_from_jwt := (\<lambda>url token. Inl unknown_kid_error)\<rparr>"

text \<open>
  An identity token whose header says \<^verbatim>\<open>HS256\<close> and names an unknown key: the key
  lookup raises as above, and \<^verbatim>\<open>jwt.decode\<close> would refuse the algorithm.
\<close>

definition world_hs256_unknown_kid :: world where
  "world_hs256_unknown_kid =
     example_world
       \<lparr>get_signing_key_from_jwt := (\<lambda>url token. Inl unknown_kid_error),
        jwt_decode := (\<lambda>token key algorithms audience issuer.
          if ''HS256'' \<in> set algorithms then Inr example_claims
          else Inl (Exn InvalidAlgorithmError ''The specified alg value is not allowed''))\<rparr>"

text \<open>
  An identity token whose header says \<^verbatim>\<open>HS256\<close> and names a key of the key set: the key
  lookup returns, and \<^verbatim>\<open>jwt.decode\<close> refuses the algorithm.
\<close>

definition world_hs256 :: world where
  "world_hs256 =
     example_world
       \<lparr>jwt_decode := (\<lambda>token key algorithms audience issuer.
          if ''HS256'' \<in> set algorithms then Inr example_claims
          else Inl (Exn InvalidAlgorithmError ''The specified alg value is not allowed''))\<rparr>"

text \<open>The identity token has expired: \<^verbatim>\<open>jwt.decode\<close> raises \<^verbatim>\<open>ExpiredSignatureError\<close>.\<close>

definition world_expired :: world where
  "world_expired =
     example_world\<lparr>jwt_decode := (\<lambda>token key algorithms audience issuer.
        Inl (Exn ExpiredSignatureError ''Signature has expired''))\<rparr>"

text \<open>The provider does not answer within the timeout: \<^verbatim>\<open>requests.post\<close> raises \<^verbatim>\<open>Timeout\<close>.\<close>

definition world_timeout :: world where
  "world_timeout =
     example_world\<lparr>requests_post := (\<lambda>url data.
        Inl (Exn Timeout ''Read timed out. (read timeout=10)''))\<rparr>"

text \<open>The provider answers 400: \<^verbatim>\<open>raise_for_status\<close> raises \<^verbatim>\<open>HTTPError\<close>.\<close>

definition bad_request_response :: http_response where
  "bad_request_response =
     \<lparr>status_code = 400,
      http_error_msg =
        ''400 Client Error: Bad Request for url: https://idp.example.com/oidc/token'',
      json_result = Inr (JObj [(''error'', JStr ''invalid_grant'')])\<rparr>"

definition world_http_400 :: world where
  "world_http_400 = example_world\<lparr>requests_post := (\<lambda>url data. Inr bad_request_response)\<rparr>"

text \<open>The provider answers 200 with a payload that has no \<^verbatim>\<open>id_token\<close>.\<close>

definition world_no_id_token :: world where
  "world_no_id_token =
     example_world\<lparr>requests_post := (\<lambda>url data.
        Inr \<lparr>status_code = 200, http_error_msg = [],
             json_result = Inr (JObj [(''access_token'', JStr ''at-1'')])\<rparr>)\<rparr>"

text \<open>Verified claims in which the configured custom claim is present and \<^verbatim>\<open>null\<close>.\<close>

definition claims_null_custom :: dict where
  "claims_null_custom = [(''sub'', JStr ''idp|12345''), (''national_id'', JNull)]"

text \<open>Verified claims whose subject ends in the separator.\<close>

definition world_trailing_separator :: world where
  "world_trailing_separator =
     example_world\<lparr>jwt_decode := (\<lambda>token key algorithms audience issuer.
        Inr [(''sub'', JStr ''idp|'')])\<rparr>"

section \<open>Unfolding the model\<close>

lemmas stage_defs = exchange_code_for_tokens_def raise_for_status_def verify_id_token_def
  create_or_update_user_def create_custom_token_def

lemmas example_defs = example_config_def unset_config_def example_claims_def
  example_world_def example_request_def unknown_kid_error_def world_unknown_kid_def
  world_hs256_unknown_kid_def world_hs256_def world_expired_def world_timeout_def bad_request_response_def
  world_http_400_def world_no_id_token_def claims_null_custom_def
  world_trailing_separator_def

lemmas eval_defs = handleOAuthCallback_def handleOAuthCallback_try_def config_missing_def
  error_response_def json_response_def bind_def dict_get_def dict_has_def stage_defs
  profile_data_def custom_claim_def developer_claims_def developer_claims_arg_def
  auth_uid_def Let_def example_defs

section \<open>The derived user identifier\<close>

lemma split_not_Nil: "split c s \<noteq> []"
  by (induction s) (auto split: list.splits)

lemma split_no_sep: "c \<notin> set s \<Longrightarrow> split c s = [s]"
  by (induction s) auto

lemma length_split: "length (split c s) = Suc (length (filter (\<lambda>x. x = c) s))"
  by (induction s) (auto split: list.splits)

lemma split_two: "c \<in> set s \<Longrightarrow> \<exists>p q qs. split c s = p # q # qs"
proof -
  assume "c \<in> set s"
  then have "filter (\<lambda>x. x = c) s \<noteq> []"
    by (simp add: filter_empty_conv)
  then have "2 \<le> length (split c s)"
    by (cases "filter (\<lambda>x. x = c) s") (simp_all add: length_split)
  then show ?thesis
    by (cases "split c s") (auto simp: Suc_le_length_iff)
qed

lemma last_split_Cons:
  "last (split c (x # xs)) = (if x = c \<or> c \<in> set xs then last (split c xs) else x # xs)"
proof (cases "x = c")
  case True
  then show ?thesis by (simp add: split_not_Nil)
next
  case False
  show ?thesis
  proof (cases "c \<in> set xs")
    case True
    then obtain p q qs where "split c xs = p # q # qs"
      using split_two by blast
    with False True show ?thesis by simp
  next
    case no_sep: False
    with False show ?thesis by (simp add: split_no_sep)
  qed
qed

lemma last_split_suffix: "c \<in> set s \<Longrightarrow> \<exists>pre. s = pre @ c # last (split c s)"
proof (induction s)
  case Nil
  then show ?case by simp
next
  case (Cons x xs)
  show ?case
  proof (cases "c \<in> set xs")
    case True
    with Cons.IH obtain pre where "xs = pre @ c # last (split c xs)" by blast
    then have "x # xs = (x # pre) @ c # last (split c xs)" by simp
    moreover have "last (split c (x # xs)) = last (split c xs)"
      using True by (simp only: last_split_Cons if_True simp_thms)
    ultimately show ?thesis by metis
  next
    case False
    with Cons.prems have "x = c" by simp
    with False have "x # xs = [] @ c # last (split c (x # xs))"
      by (simp add: last_split_Cons split_no_sep)
    then show ?thesis by blast
  qed
qed

lemma last_split_no_sep: "c \<notin> set (last (split c s))"
  by (induction s) (auto simp add: last_split_Cons simp del: split.simps(2))

lemma create_or_update_user_uid:
  "create_or_update_user cfg w claims = (Inr uid, t) \<Longrightarrow>
     derive_auth_uid (dict_get claims ''sub'') = Inr uid"
  by (auto simp: create_or_update_user_def Let_def split: option.splits if_splits sum.splits)

text \<open>
  Claim C4. The derived user identifier is a function of the subject claim alone:
  \<^verbatim>\<open>"idp|12345"\<close> derives to \<^verbatim>\<open>"12345"\<close>; a subject without \<^verbatim>\<open>'|'\<close>, such as
  \<^verbatim>\<open>"abc123"\<close>, derives to itself; the identifier \<^verbatim>\<open>create_or_update_user\<close> returns for a
  string subject is \<open>auth_uid\<close> of it; and two calls whose claims have the same subject
  return the same identifier, whatever the configuration, the collaborators and the
  other claims are.
\<close>

theorem derived_identifier_deterministic:
  "auth_uid ''idp|12345'' = ''12345'' \<and>
   auth_uid ''abc123'' = ''abc123'' \<and>
   (CHR ''|'' \<notin> set s \<longrightarrow> auth_uid s = s) \<and>
   (create_or_update_user cfg w claims = (Inr uid, t) \<and>
    dict_get claims ''sub'' = JStr subject \<longrightarrow> uid = JStr (auth_uid subject)) \<and>
   (create_or_update_user cfg w claims = (Inr uid, t) \<and>
    create_or_update_user cfg' w' claims' = (Inr uid', t') \<and>
    dict_get claims ''sub'' = dict_get claims' ''sub'' \<longrightarrow> uid = uid')"
proof (intro conjI impI)
  show "auth_uid ''idp|12345'' = ''12345''" by (simp add: auth_uid_def)
  show "auth_uid ''abc123'' = ''abc123''" by (simp add: auth_uid_def)
  show "auth_uid s = s" if "CHR ''|'' \<notin> set s"
    using that by (simp add: auth_uid_def)
  show "uid = JStr (auth_uid subject)"
    if "create_or_update_user cfg w claims = (Inr uid, t) \<and>
        dict_get claims ''sub'' = JStr subject"
    using that create_or_update_user_uid[of cfg w claims uid t] by simp
  show "uid = uid'"
    if "create_or_update_user cfg w claims = (Inr uid, t) \<and>
        create_or_update_user cfg' w' claims' = (Inr uid', t') \<and>
        dict_get claims ''sub'' = dict_get claims' ''sub''"
    using that create_or_update_user_uid[of cfg w claims uid t]
      create_or_update_user_uid[of cfg' w' claims' uid' t'] by simp
qed

text \<open>
  The theorem at \<^verbatim>\<open>"abc123"\<close> and at two sign-ins of the subject \<^verbatim>\<open>"idp|12345"\<close>, under
  different configurations and with different other claims.
\<close>

theorem derived_identifier_deterministic_witness:
  "CHR ''|'' \<notin> set ''abc123'' \<and> auth_uid ''abc123'' = ''abc123'' \<and>
   create_or_update_user example_config example_world example_claims =
     (Inr (JStr ''12345''),
      [FirestoreClient,
       DocumentSet ''users'' (JStr ''12345'')
         (profile_data example_config example_claims (JStr ''idp|12345'')) True]) \<and>
   create_or_update_user unset_config world_expired [(''sub'', JStr ''idp|12345'')] =
     (Inr (JStr ''12345''),
      [FirestoreClient,
       DocumentSet ''users'' (JStr ''12345'')
         [(''sub'', Val (JStr ''idp|12345'')), (''updated_at'', SERVER_TIMESTAMP)] True]) \<and>
   dict_get example_claims ''sub'' = JStr ''idp|12345'' \<and>
   dict_get example_claims ''sub'' = dict_get [(''sub'', JStr ''idp|12345'')] ''sub'' \<and>
   JStr ''12345'' = JStr (auth_uid ''idp|12345'')"
  using derived_identifier_deterministic
    [where s = "''abc123''" and subject = "''idp|12345''"
       and cfg = example_config and w = example_world and claims = example_claims
       and uid = "JStr ''12345''"
       and t = "[FirestoreClient,
          DocumentSet ''users'' (JStr ''12345'')
            (profile_data example_config example_claims (JStr ''idp|12345'')) True]"
       and cfg' = unset_config and w' = world_expired
       and claims' = "[(''sub'', JStr ''idp|12345'')]" and uid' = "JStr ''12345''"
       and t' = "[FirestoreClient,
          DocumentSet ''users'' (JStr ''12345'')
            [(''sub'', Val (JStr ''idp|12345'')), (''updated_at'', SERVER_TIMESTAMP)] True]"]
  by (simp add: eval_defs)

section \<open>The handler\<close>

lemma as_dict_Inr: "as_dict v = (Inr d, t) \<longleftrightarrow> v = JObj d \<and> t = []"
  by (cases v) auto

lemma as_dict_calls: "snd (as_dict v) = []"
  by (cases v) auto

lemma truthy_JObj_get: "truthy (dict_get d k) \<Longrightarrow> truthy (JObj d)"
  by (cases d) (simp_all add: dict_get_def)

text \<open>
  Claim C1. When the configuration is complete, the body is an object with a code and a
  verifier, and the exchange, the verification, the sync and the mint all succeed,
  \<^verbatim>\<open>handleOAuthCallback\<close> answers 200 with exactly the fields \<^verbatim>\<open>customToken\<close>, the minted
  credential, and \<^verbatim>\<open>uid\<close>, the identifier derived from the subject of the verified
  token; the calls made are those of the four stages, in order.
\<close>

theorem success_response:
  assumes "\<not> config_missing cfg"
    and "req = JObj d"
    and "truthy (dict_get d ''code'')"
    and "truthy (dict_get d ''codeVerifier'')"
    and "exchange_code_for_tokens cfg w (dict_get d ''code'') (dict_get d ''codeVerifier'')
           (dict_get d ''redirectUri'') = (Inr (JObj tr), t1)"
    and "truthy (dict_get tr ''id_token'')"
    and "verify_id_token cfg w (dict_get tr ''id_token'') = (Inr claims, t2)"
    and "dict_get claims ''sub'' = JStr subject"
    and "create_or_update_user cfg w claims = (Inr uid, t3)"
    and "create_custom_token cfg w uid claims = (Inr custom_token, t4)"
  shows "handleOAuthCallback cfg w req =
           (json_response
              [(''customToken'', JStr custom_token), (''uid'', JStr (auth_uid subject))] 200,
            t1 @ t2 @ t3 @ t4)"
proof -
  have uid: "uid = JStr (auth_uid subject)"
    using assms(8,9) create_or_update_user_uid[of cfg w claims uid t3] by simp
  have "truthy req"
    using assms(2,3) truthy_JObj_get by blast
  then show ?thesis
    using assms uid
    by (simp add: handleOAuthCallback_def handleOAuthCallback_try_def bind_def)
qed

text \<open>The theorem at the example request, in the world where nothing fails.\<close>

theorem success_response_witness:
  "\<not> config_missing example_config \<and>
   example_request = JObj [(''code'', JStr ''auth-code-1''), (''codeVerifier'', JStr ''verifier-1'')] \<and>
   truthy (JStr ''auth-code-1'') \<and> truthy (JStr ''verifier-1'') \<and>
   (\<exists>t1 t2 t3 t4.
      exchange_code_for_tokens example_config example_world (JStr ''auth-code-1'')
        (JStr ''verifier-1'') JNull =
        (Inr (JObj [(''id_token'', JStr ''eyJ.id.token''), (''access_token'', JStr ''at-1'')]), t1) \<and>
      verify_id_token example_config example_world (JStr ''eyJ.id.token'') =
        (Inr example_claims, t2) \<and>
      dict_get example_claims ''sub'' = JStr ''idp|12345'' \<and>
      create_or_update_user example_config example_world example_claims =
        (Inr (JStr ''12345''), t3) \<and>
      create_custom_token example_config example_world (JStr ''12345'') example_claims =
        (Inr ''custom.jwt.token'', t4) \<and>
      handleOAuthCallback example_config example_world example_request =
        (json_response
           [(''customToken'', JStr ''custom.jwt.token''), (''uid'', JStr ''12345'')] 200,
         t1 @ t2 @ t3 @ t4))"
proof -
  let ?d = "[(''code'', JStr ''auth-code-1''), (''codeVerifier'', JStr ''verifier-1'')]"
  let ?tr = "[(''id_token'', JStr ''eyJ.id.token''), (''access_token'', JStr ''at-1'')]"
  have c: "\<not> config_missing example_config"
    by (simp add: config_missing_def example_config_def)
  have r: "example_request = JObj ?d" by (simp add: example_request_def)
  have k1: "truthy (dict_get ?d ''code'')" by (simp add: dict_get_def)
  have k2: "truthy (dict_get ?d ''codeVerifier'')" by (simp add: dict_get_def)
  obtain t1 where e: "exchange_code_for_tokens example_config example_world
      (dict_get ?d ''code'') (dict_get ?d ''codeVerifier'') (dict_get ?d ''redirectUri'') =
      (Inr (JObj ?tr), t1)"
    by (simp add: exchange_code_for_tokens_def raise_for_status_def example_world_def dict_get_def)
  have k3: "truthy (dict_get ?tr ''id_token'')" by (simp add: dict_get_def)
  obtain t2 where v: "verify_id_token example_config example_world (dict_get ?tr ''id_token'') =
      (Inr example_claims, t2)"
    by (simp add: verify_id_token_def example_world_def)
  have s: "dict_get example_claims ''sub'' = JStr ''idp|12345''"
    by (simp add: dict_get_def example_claims_def)
  obtain t3 where u: "create_or_update_user example_config example_world example_claims =
      (Inr (JStr ''12345''), t3)"
    by (simp add: eval_defs)
  obtain t4 where m: "create_custom_token example_config example_world (JStr ''12345'')
      example_claims = (Inr ''custom.jwt.token'', t4)"
    by (simp add: create_custom_token_def example_world_def)
  have a: "auth_uid ''idp|12345'' = ''12345''" by (simp add: auth_uid_def)
  show ?thesis
    using success_response [OF c r k1 k2 e k3 v s u m] c r e v s u m a
    by (auto simp: dict_get_def)
qed

text \<open>
  Claim C8. If any of issuer URL, client id, client secret and redirect URI is empty,
  every request is answered 500 \<^verbatim>\<open>configuration_error\<close> and no call is made.
\<close>

theorem configuration_error_first:
  assumes "OAUTH_ISSUER_URL cfg = [] \<or> OAUTH_CLIENT_ID cfg = [] \<or>
           OAUTH_CLIENT_SECRET cfg = [] \<or> OAUTH_REDIRECT_URI cfg = []"
  shows "handleOAuthCallback cfg w req =
           (error_response ''configuration_error''
              ''Cloud Function not properly configured. Check environment variables.'' 500,
            [])"
proof -
  have "config_missing cfg"
    using assms by (auto simp: config_missing_def)
  then show ?thesis
    by (simp add: handleOAuthCallback_def handleOAuthCallback_try_def)
qed

text \<open>The theorem at a configuration without the client secret.\<close>

theorem configuration_error_first_witness:
  "(OAUTH_ISSUER_URL (example_config\<lparr>OAUTH_CLIENT_SECRET := []\<rparr>) = [] \<or>
    OAUTH_CLIENT_ID (example_config\<lparr>OAUTH_CLIENT_SECRET := []\<rparr>) = [] \<or>
    OAUTH_CLIENT_SECRET (example_config\<lparr>OAUTH_CLIENT_SECRET := []\<rparr>) = [] \<or>
    OAUTH_REDIRECT_URI (example_config\<lparr>OAUTH_CLIENT_SECRET := []\<rparr>) = []) \<and>
   handleOAuthCallback (example_config\<lparr>OAUTH_CLIENT_SECRET := []\<rparr>) example_world
     example_request =
     (error_response ''configuration_error''
        ''Cloud Function not properly configured. Check environment variables.'' 500,
      [])"
  using configuration_error_first
    [of "example_config\<lparr>OAUTH_CLIENT_SECRET := []\<rparr>" example_world example_request]
  by simp

text \<open>
  A body that is missing or falsy, and an object without a truthy \<^verbatim>\<open>code\<close> or without a
  truthy \<^verbatim>\<open>codeVerifier\<close>, are answered 400 \<^verbatim>\<open>invalid_request\<close>, and no call is made.
\<close>

lemma invalid_request_no_calls:
  assumes "\<not> config_missing cfg"
    and "\<not> truthy req \<or>
         (\<exists>d. req = JObj d \<and>
            (\<not> truthy (dict_get d ''code'') \<or> \<not> truthy (dict_get d ''codeVerifier'')))"
  shows "handleOAuthCallback cfg w req =
           (error_response ''invalid_request''
              (if truthy req then ''Missing code or codeVerifier''
               else ''Request body must be JSON'') 400,
            [])"
  using assms
  by (auto simp: handleOAuthCallback_def handleOAuthCallback_try_def bind_def)

text \<open>The lemma at an empty object and at an object with an empty verifier.\<close>

lemma invalid_request_examples:
  "\<not> config_missing example_config \<and> \<not> truthy (JObj []) \<and>
   \<not> truthy (dict_get [(''code'', JStr ''auth-code-1''), (''codeVerifier'', JStr [])]
               ''codeVerifier'') \<and>
   handleOAuthCallback example_config example_world (JObj []) =
     (error_response ''invalid_request'' ''Request body must be JSON'' 400, []) \<and>
   handleOAuthCallback example_config example_world
       (JObj [(''code'', JStr ''auth-code-1''), (''codeVerifier'', JStr [])]) =
     (error_response ''invalid_request'' ''Missing code or codeVerifier'' 400, [])"
  using invalid_request_no_calls [of example_config "JObj []" example_world]
    invalid_request_no_calls [of example_config
      "JObj [(''code'', JStr ''auth-code-1''), (''codeVerifier'', JStr [])]" example_world]
  by (simp add: eval_defs)

text \<open>
  A body that is truthy and not an object passes \<^verbatim>\<open>if not request_json\<close>, and
  \<^verbatim>\<open>request_json.get('code')\<close> raises \<^verbatim>\<open>AttributeError\<close>, which only
  \<^verbatim>\<open>except Exception\<close> catches: the answer is 500 \<^verbatim>\<open>internal_error\<close>. No call is made.
\<close>

lemma non_object_body:
  assumes "\<not> config_missing cfg" and "truthy req" and "\<forall>d. req \<noteq> JObj d"
  shows "handleOAuthCallback cfg w req =
           (error_response ''internal_error''
              (''An unexpected error occurred: '' @ no_attribute (type_name req) ''get'') 500,
            [])"
  using assms
  by (cases req) (simp_all add: handleOAuthCallback_def handleOAuthCallback_try_def bind_def)

text \<open>
  Claim C7. A request whose body lacks \<^verbatim>\<open>code\<close> or \<^verbatim>\<open>codeVerifier\<close>, or is missing or
  not valid JSON, is to be answered 400 \<^verbatim>\<open>invalid_request\<close> with no outbound call. The
  code does not do so for the body \<^verbatim>\<open>[1]\<close>: with the configuration complete, the body is
  valid JSON, it has neither field, it is not falsy, and the handler answers 500
  \<^verbatim>\<open>internal_error\<close> with the message of the \<^verbatim>\<open>AttributeError\<close>. No call is made.
\<close>

theorem non_object_body_internal_error:
  "\<not> config_missing example_config \<and> truthy (JArr [JNum 1]) \<and>
   handleOAuthCallback example_config example_world (JArr [JNum 1]) =
     (error_response ''internal_error''
        (''An unexpected error occurred: '' @ no_attribute ''list'' ''get'') 500, [])"
  by (simp add: eval_defs)

section \<open>Every request gets one classified response\<close>






section \<open>The identifier of a subject with separators\<close>

lemma last_split_trailing: "last (split c (s @ [c])) = []"
  by (induction s) (auto simp add: last_split_Cons simp del: split.simps(2))

lemma auth_uid_suffix:
  assumes "CHR ''|'' \<in> set subject"
  shows "(\<exists>pre. subject = pre @ CHR ''|'' # auth_uid subject) \<and>
         CHR ''|'' \<notin> set (auth_uid subject)"
  using assms last_split_suffix[of "CHR ''|''" subject] last_split_no_sep[of "CHR ''|''" subject]
  by (simp add: auth_uid_def)

lemma sync_calls:
  assumes "firestore_client w = None"
    and "dict_get claims ''sub'' = JStr subject" and "subject \<noteq> []"
  shows "create_or_update_user cfg w claims =
           ((case document_set w (JStr (auth_uid subject))
                    (profile_data cfg claims (JStr subject)) of
               Some e \<Rightarrow> Inl e | None \<Rightarrow> Inr (JStr (auth_uid subject))),
            [FirestoreClient,
             DocumentSet ''users'' (JStr (auth_uid subject))
               (profile_data cfg claims (JStr subject)) True])"
  using assms by (simp add: create_or_update_user_def Let_def split: option.splits)

text \<open>
  Claim C10. For a subject that contains \<^verbatim>\<open>'|'\<close>, the derived identifier is what follows
  the last \<^verbatim>\<open>'|'\<close>: the subject is a prefix, a \<^verbatim>\<open>'|'\<close> and the identifier, and the
  identifier has no \<^verbatim>\<open>'|'\<close>. So \<^verbatim>\<open>"a|b|c"\<close> derives to \<^verbatim>\<open>"c"\<close> and a subject that ends in
  \<^verbatim>\<open>'|'\<close> derives to the empty string. The handler passes the identifier, empty or not,
  to the store as the document key and, when the write returns, to the signer as the uid.
\<close>

theorem identifier_after_last_separator:
  "(CHR ''|'' \<in> set subject \<longrightarrow>
      (\<exists>pre. subject = pre @ CHR ''|'' # auth_uid subject) \<and>
      CHR ''|'' \<notin> set (auth_uid subject)) \<and>
   auth_uid ''a|b|c'' = ''c'' \<and>
   auth_uid (s @ ''|'') = [] \<and>
   (\<not> config_missing cfg \<and> req = JObj d \<and>
    truthy (dict_get d ''code'') \<and> truthy (dict_get d ''codeVerifier'') \<and>
    exchange_code_for_tokens cfg w (dict_get d ''code'') (dict_get d ''codeVerifier'')
      (dict_get d ''redirectUri'') = (Inr (JObj tr), t1) \<and>
    truthy (dict_get tr ''id_token'') \<and>
    verify_id_token cfg w (dict_get tr ''id_token'') = (Inr claims, t2) \<and>
    firestore_client w = None \<and>
    dict_get claims ''sub'' = JStr subject \<and> subject \<noteq> [] \<longrightarrow>
    snd (handleOAuthCallback cfg w req) =
      t1 @ t2 @
      [FirestoreClient,
       DocumentSet ''users'' (JStr (auth_uid subject))
         (profile_data cfg claims (JStr subject)) True] @
      (if document_set w (JStr (auth_uid subject)) (profile_data cfg claims (JStr subject)) =
          None
       then [AuthCreateCustomToken (JStr (auth_uid subject)) (developer_claims_arg cfg claims)]
       else []))"
proof (intro conjI impI)
  show "auth_uid ''a|b|c'' = ''c''" by (simp add: auth_uid_def)
  show "auth_uid (s @ ''|'') = []"
    using last_split_trailing[of "CHR ''|''" s] by (simp add: auth_uid_def)
next
  assume "CHR ''|'' \<in> set subject"
  then show "\<exists>pre. subject = pre @ CHR ''|'' # auth_uid subject"
    and "CHR ''|'' \<notin> set (auth_uid subject)"
    using auth_uid_suffix by blast+
next
  assume a: "\<not> config_missing cfg \<and> req = JObj d \<and>
    truthy (dict_get d ''code'') \<and> truthy (dict_get d ''codeVerifier'') \<and>
    exchange_code_for_tokens cfg w (dict_get d ''code'') (dict_get d ''codeVerifier'')
      (dict_get d ''redirectUri'') = (Inr (JObj tr), t1) \<and>
    truthy (dict_get tr ''id_token'') \<and>
    verify_id_token cfg w (dict_get tr ''id_token'') = (Inr claims, t2) \<and>
    firestore_client w = None \<and>
    dict_get claims ''sub'' = JStr subject \<and> subject \<noteq> []"
  then have t: "truthy req" using truthy_JObj_get by blast
  from a have s: "create_or_update_user cfg w claims =
           ((case document_set w (JStr (auth_uid subject))
                    (profile_data cfg claims (JStr subject)) of
               Some e \<Rightarrow> Inl e | None \<Rightarrow> Inr (JStr (auth_uid subject))),
            [FirestoreClient,
             DocumentSet ''users'' (JStr (auth_uid subject))
               (profile_data cfg claims (JStr subject)) True])"
    using sync_calls by blast
  show "snd (handleOAuthCallback cfg w req) =
      t1 @ t2 @
      [FirestoreClient,
       DocumentSet ''users'' (JStr (auth_uid subject))
         (profile_data cfg claims (JStr subject)) True] @
      (if document_set w (JStr (auth_uid subject)) (profile_data cfg claims (JStr subject)) =
          None
       then [AuthCreateCustomToken (JStr (auth_uid subject)) (developer_claims_arg cfg claims)]
       else [])"
    using a t s
    by (simp add: handleOAuthCallback_def handleOAuthCallback_try_def bind_def
          create_custom_token_def Let_def split: option.splits sum.splits)
qed

text \<open>The theorem at the subject \<^verbatim>\<open>"idp|"\<close>: document key and uid are the empty string.\<close>

theorem identifier_after_last_separator_witness:
  "CHR ''|'' \<in> set ''idp|'' \<and> auth_uid ''idp|'' = [] \<and>
   \<not> config_missing example_config \<and>
   firestore_client world_trailing_separator = None \<and>
   dict_get [(''sub'', JStr ''idp|'')] ''sub'' = JStr ''idp|'' \<and>
   snd (handleOAuthCallback example_config world_trailing_separator example_request) =
     [RequestsPost ''https://idp.example.com/oidc/token''
        [(''grant_type'', JStr ''authorization_code''),
         (''code'', JStr ''auth-code-1''),
         (''code_verifier'', JStr ''verifier-1''),
         (''client_id'', JStr ''client-1''),
         (''client_secret'', JStr ''s3cret''),
         (''redirect_uri'', JStr ''https://app.example.com/callback'')] 10,
      GetSigningKeyFromJwt ''https://idp.example.com/oidc/jwks'' (JStr ''eyJ.id.token''),
      JwtDecode (JStr ''eyJ.id.token'') ''key-1'' [''RS256''] ''client-1''
        ''https://idp.example.com'',
      FirestoreClient,
      DocumentSet ''users'' (JStr [])
        [(''sub'', Val (JStr ''idp|'')), (''updated_at'', SERVER_TIMESTAMP)] True,
      AuthCreateCustomToken (JStr []) None]"
proof -
  let ?d = "[(''code'', JStr ''auth-code-1''), (''codeVerifier'', JStr ''verifier-1'')]"
  let ?tr = "[(''id_token'', JStr ''eyJ.id.token''), (''access_token'', JStr ''at-1'')]"
  let ?claims = "[(''sub'', JStr ''idp|'')]"
  let ?t1 = "[RequestsPost ''https://idp.example.com/oidc/token''
        [(''grant_type'', JStr ''authorization_code''),
         (''code'', JStr ''auth-code-1''),
         (''code_verifier'', JStr ''verifier-1''),
         (''client_id'', JStr ''client-1''),
         (''client_secret'', JStr ''s3cret''),
         (''redirect_uri'', JStr ''https://app.example.com/callback'')] 10]"
  let ?t2 = "[GetSigningKeyFromJwt ''https://idp.example.com/oidc/jwks'' (JStr ''eyJ.id.token''),
      JwtDecode (JStr ''eyJ.id.token'') ''key-1'' [''RS256''] ''client-1''
        ''https://idp.example.com'']"
  have m: "CHR ''|'' \<in> set ''idp|''" by simp
  have u: "auth_uid ''idp|'' = []" by (simp add: auth_uid_def)
  have c: "\<not> config_missing example_config"
    by (simp add: config_missing_def example_config_def)
  have r: "example_request = JObj ?d" by (simp add: example_request_def)
  have k1: "truthy (dict_get ?d ''code'')" by (simp add: dict_get_def)
  have k2: "truthy (dict_get ?d ''codeVerifier'')" by (simp add: dict_get_def)
  have e: "exchange_code_for_tokens example_config world_trailing_separator
      (dict_get ?d ''code'') (dict_get ?d ''codeVerifier'') (dict_get ?d ''redirectUri'') =
      (Inr (JObj ?tr), ?t1)"
    by (simp add: exchange_code_for_tokens_def raise_for_status_def
          world_trailing_separator_def example_world_def example_config_def dict_get_def)
  have k3: "truthy (dict_get ?tr ''id_token'')" by (simp add: dict_get_def)
  have v: "verify_id_token example_config world_trailing_separator (dict_get ?tr ''id_token'') =
      (Inr ?claims, ?t2)"
    by (simp add: verify_id_token_def world_trailing_separator_def example_world_def
          example_config_def dict_get_def)
  have f: "firestore_client world_trailing_separator = None"
    by (simp add: world_trailing_separator_def example_world_def)
  have s: "dict_get ?claims ''sub'' = JStr ''idp|''" by (simp add: dict_get_def)
  have n: "''idp|'' \<noteq> []" by simp
  have "snd (handleOAuthCallback example_config world_trailing_separator example_request) =
      ?t1 @ ?t2 @
      [FirestoreClient,
       DocumentSet ''users'' (JStr (auth_uid ''idp|''))
         (profile_data example_config ?claims (JStr ''idp|'')) True] @
      (if document_set world_trailing_separator (JStr (auth_uid ''idp|''))
            (profile_data example_config ?claims (JStr ''idp|'')) = None
       then [AuthCreateCustomToken (JStr (auth_uid ''idp|''))
               (developer_claims_arg example_config ?claims)]
       else [])"
    using identifier_after_last_separator
      [where cfg = example_config and w = world_trailing_separator and req = example_request
         and d = ?d and tr = ?tr and ?t1.0 = ?t1 and ?t2.0 = ?t2 and claims = ?claims
         and subject = "''idp|''", THEN conjunct2, THEN conjunct2, THEN conjunct2]
      c r k1 k2 e k3 v f s n
    by blast
  then have "snd (handleOAuthCallback example_config world_trailing_separator example_request) =
     ?t1 @ ?t2 @
      [FirestoreClient,
      DocumentSet ''users'' (JStr [])
        [(''sub'', Val (JStr ''idp|'')), (''updated_at'', SERVER_TIMESTAMP)] True,
      AuthCreateCustomToken (JStr []) None]"
    by (simp add: u profile_data_def custom_claim_def developer_claims_arg_def
          developer_claims_def dict_get_def dict_has_def example_config_def
          world_trailing_separator_def example_world_def)
  with m u c f s show ?thesis by simp
qed

section \<open>The custom claim\<close>












section \<open>Exceptions of the exchange and of the verification\<close>

text \<open>The calls of the exchange and of the verification.\<close>

lemma exchange_calls:
  "snd (exchange_code_for_tokens cfg w code code_verifier redirect_uri) =
     [RequestsPost (OAUTH_ISSUER_URL cfg @ ''/oidc/token'')
        [(''grant_type'', JStr ''authorization_code''),
         (''code'', code),
         (''code_verifier'', code_verifier),
         (''client_id'', JStr (OAUTH_CLIENT_ID cfg)),
         (''client_secret'', JStr (OAUTH_CLIENT_SECRET cfg)),
         (''redirect_uri'',
          if truthy redirect_uri then redirect_uri else JStr (OAUTH_REDIRECT_URI cfg))]
        10]"
  by (simp add: exchange_code_for_tokens_def Let_def split: sum.split option.split)

lemma verify_calls:
  "snd (verify_id_token cfg w id_token) =
     (case get_signing_key_from_jwt w (OAUTH_ISSUER_URL cfg @ ''/oidc/jwks'') id_token of
        Inl e \<Rightarrow> [GetSigningKeyFromJwt (OAUTH_ISSUER_URL cfg @ ''/oidc/jwks'') id_token]
      | Inr key \<Rightarrow>
          [GetSigningKeyFromJwt (OAUTH_ISSUER_URL cfg @ ''/oidc/jwks'') id_token,
           JwtDecode id_token key [''RS256''] (OAUTH_CLIENT_ID cfg) (OAUTH_ISSUER_URL cfg)])"
  by (simp add: verify_id_token_def Let_def split: sum.split)

text \<open>
  An exception of the exchange, and an exception of the verification, leave the
  \<^verbatim>\<open>try\<close> block and are answered by the first \<^verbatim>\<open>except\<close> clause that matches their class.
\<close>

lemma exchange_exception:
  assumes "\<not> config_missing cfg"
    and "truthy (dict_get d ''code'')" and "truthy (dict_get d ''codeVerifier'')"
    and "exchange_code_for_tokens cfg w (dict_get d ''code'') (dict_get d ''codeVerifier'')
           (dict_get d ''redirectUri'') = (Inl e, t1)"
  shows "handleOAuthCallback cfg w (JObj d) =
           (if is_HTTPError (cls e)
            then error_response ''token_exchange_failed''
                   (''Failed to exchange authorization code: '' @ str e) 500
            else if is_InvalidTokenError (cls e)
            then error_response ''invalid_token''
                   (''ID token verification failed: '' @ str e) 401
            else error_response ''internal_error''
                   (''An unexpected error occurred: '' @ str e) 500,
            t1)"
proof -
  have "truthy (JObj d)" using assms(2) by (rule truthy_JObj_get)
  then have "handleOAuthCallback_try cfg w (JObj d) = (Inl e, t1)"
    using assms by (simp add: handleOAuthCallback_try_def bind_def)
  then show ?thesis by (simp add: handleOAuthCallback_def)
qed

lemma verification_exception:
  assumes "\<not> config_missing cfg"
    and "truthy (dict_get d ''code'')" and "truthy (dict_get d ''codeVerifier'')"
    and "exchange_code_for_tokens cfg w (dict_get d ''code'') (dict_get d ''codeVerifier'')
           (dict_get d ''redirectUri'') = (Inr (JObj tr), t1)"
    and "truthy (dict_get tr ''id_token'')"
    and "verify_id_token cfg w (dict_get tr ''id_token'') = (Inl e, t2)"
  shows "handleOAuthCallback cfg w (JObj d) =
           (if is_HTTPError (cls e)
            then error_response ''token_exchange_failed''
                   (''Failed to exchange authorization code: '' @ str e) 500
            else if is_InvalidTokenError (cls e)
            then error_response ''invalid_token''
                   (''ID token verification failed: '' @ str e) 401
            else error_response ''internal_error''
                   (''An unexpected error occurred: '' @ str e) 500,
            t1 @ t2)"
proof -
  have "truthy (JObj d)" using assms(2) by (rule truthy_JObj_get)
  then have "handleOAuthCallback_try cfg w (JObj d) = (Inl e, t1 @ t2)"
    using assms by (simp add: handleOAuthCallback_try_def bind_def)
  then show ?thesis by (simp add: handleOAuthCallback_def)
qed

section \<open>A verification that fails\<close>

text \<open>
  When the verification raises an exception of a class under \<^verbatim>\<open>jwt.InvalidTokenError\<close>, the
  answer is 401 \<^verbatim>\<open>invalid_token\<close>, and the calls of the request hold neither the write of
  the user record nor the mint of the credential.
\<close>

lemma verification_failure:
  assumes "\<not> config_missing cfg"
    and "truthy (dict_get d ''code'')" and "truthy (dict_get d ''codeVerifier'')"
    and "exchange_code_for_tokens cfg w (dict_get d ''code'') (dict_get d ''codeVerifier'')
           (dict_get d ''redirectUri'') = (Inr (JObj tr), t1)"
    and "truthy (dict_get tr ''id_token'')"
    and "verify_id_token cfg w (dict_get tr ''id_token'') = (Inl e, t2)"
    and "is_InvalidTokenError (cls e)"
  shows "fst (handleOAuthCallback cfg w (JObj d)) =
           error_response ''invalid_token'' (''ID token verification failed: '' @ str e) 401"
    and "DocumentSet col uid data m \<notin> set (snd (handleOAuthCallback cfg w (JObj d)))"
    and "AuthCreateCustomToken uid dc \<notin> set (snd (handleOAuthCallback cfg w (JObj d)))"
proof -
  have h: "\<not> is_HTTPError (cls e)"
    using assms(7) by (cases "cls e") simp_all
  note r = verification_exception [OF assms(1-6)]
  show "fst (handleOAuthCallback cfg w (JObj d)) =
          error_response ''invalid_token'' (''ID token verification failed: '' @ str e) 401"
    using r h assms(7) by simp
  have t1: "t1 = snd (exchange_code_for_tokens cfg w (dict_get d ''code'')
      (dict_get d ''codeVerifier'') (dict_get d ''redirectUri''))"
    using assms(4) by simp
  have t2: "t2 = snd (verify_id_token cfg w (dict_get tr ''id_token''))"
    using assms(6) by simp
  have s: "snd (handleOAuthCallback cfg w (JObj d)) = t1 @ t2"
    using r by simp
  show "DocumentSet col uid data m \<notin> set (snd (handleOAuthCallback cfg w (JObj d)))"
    unfolding s unfolding t1 t2 exchange_calls verify_calls
    by (simp split: sum.split)
  show "AuthCreateCustomToken uid dc \<notin> set (snd (handleOAuthCallback cfg w (JObj d)))"
    unfolding s unfolding t1 t2 exchange_calls verify_calls
    by (simp split: sum.split)
qed

text \<open>An expired identity token: 401 \<^verbatim>\<open>invalid_token\<close> after the exchange and the decoding.\<close>

lemma expired_token_unauthorized:
  "handleOAuthCallback example_config world_expired example_request =
     (error_response ''invalid_token''
        ''ID token verification failed: Signature has expired'' 401,
      [RequestsPost ''https://idp.example.com/oidc/token''
         [(''grant_type'', JStr ''authorization_code''),
          (''code'', JStr ''auth-code-1''),
          (''code_verifier'', JStr ''verifier-1''),
          (''client_id'', JStr ''client-1''),
          (''client_secret'', JStr ''s3cret''),
          (''redirect_uri'', JStr ''https://app.example.com/callback'')] 10,
       GetSigningKeyFromJwt ''https://idp.example.com/oidc/jwks'' (JStr ''eyJ.id.token''),
       JwtDecode (JStr ''eyJ.id.token'') ''key-1'' [''RS256''] ''client-1''
         ''https://idp.example.com''])"
  by (simp add: eval_defs)

text \<open>
  Claim C2. Every failure of the verification of the identity token, the unknown key id
  among them, is to be answered 401 \<^verbatim>\<open>invalid_token\<close>, with neither the write of the user
  record nor the mint of the credential. The code does not do so for an identity token
  whose key id names no key of the key set: \<^verbatim>\<open>get_signing_key_from_jwt\<close> raises
  \<^verbatim>\<open>PyJWKClientError\<close>, which is not a \<^verbatim>\<open>jwt.InvalidTokenError\<close>, \<^verbatim>\<open>verify_id_token\<close> lets it
  pass, and only \<^verbatim>\<open>except Exception\<close> catches it: the answer is 500 \<^verbatim>\<open>internal_error\<close>.
  Nothing is written and nothing is minted.
\<close>

theorem unknown_key_id_internal_error:
  "\<not> is_InvalidTokenError (cls unknown_kid_error) \<and>
   verify_id_token example_config world_unknown_kid (JStr ''eyJ.id.token'') =
     (Inl unknown_kid_error,
      [GetSigningKeyFromJwt ''https://idp.example.com/oidc/jwks'' (JStr ''eyJ.id.token'')]) \<and>
   handleOAuthCallback example_config world_unknown_kid example_request =
     (error_response ''internal_error''
        (''An unexpected error occurred: '' @ str unknown_kid_error) 500,
      [RequestsPost ''https://idp.example.com/oidc/token''
         [(''grant_type'', JStr ''authorization_code''),
          (''code'', JStr ''auth-code-1''),
          (''code_verifier'', JStr ''verifier-1''),
          (''client_id'', JStr ''client-1''),
          (''client_secret'', JStr ''s3cret''),
          (''redirect_uri'', JStr ''https://app.example.com/callback'')] 10,
       GetSigningKeyFromJwt ''https://idp.example.com/oidc/jwks'' (JStr ''eyJ.id.token'')])"
  by (simp add: eval_defs)

section \<open>An identity token of another algorithm\<close>

text \<open>
  \<^verbatim>\<open>jwt.decode\<close> is called with the algorithms \<^verbatim>\<open>['RS256']\<close> only (lemma \<open>verify_calls\<close>).
  An identity token that says \<^verbatim>\<open>HS256\<close> and names a key of the key set is refused by
  \<^verbatim>\<open>jwt.decode\<close> and answered 401 \<^verbatim>\<open>invalid_token\<close>.
\<close>

lemma non_rs256_known_key_unauthorized:
  "handleOAuthCallback example_config world_hs256 example_request =
     (error_response ''invalid_token''
        ''ID token verification failed: The specified alg value is not allowed'' 401,
      [RequestsPost ''https://idp.example.com/oidc/token''
         [(''grant_type'', JStr ''authorization_code''),
          (''code'', JStr ''auth-code-1''),
          (''code_verifier'', JStr ''verifier-1''),
          (''client_id'', JStr ''client-1''),
          (''client_secret'', JStr ''s3cret''),
          (''redirect_uri'', JStr ''https://app.example.com/callback'')] 10,
       GetSigningKeyFromJwt ''https://idp.example.com/oidc/jwks'' (JStr ''eyJ.id.token''),
       JwtDecode (JStr ''eyJ.id.token'') ''key-1'' [''RS256''] ''client-1''
         ''https://idp.example.com''])"
  by (simp add: eval_defs)

text \<open>
  Claim C3. Every identity token whose header says an algorithm other than \<^verbatim>\<open>RS256\<close> is
  to be answered 401 \<^verbatim>\<open>invalid_token\<close>. The code does not do so for a token that says
  \<^verbatim>\<open>HS256\<close> and whose key id names no key of the key set: \<^verbatim>\<open>jwt.decode\<close> with the
  algorithms \<^verbatim>\<open>['RS256']\<close> would refuse it, but the key lookup comes first and raises
  \<^verbatim>\<open>PyJWKClientError\<close>; \<^verbatim>\<open>jwt.decode\<close> is not called and the answer is 500
  \<^verbatim>\<open>internal_error\<close>.
\<close>

theorem non_rs256_unknown_key_internal_error:
  "jwt_decode world_hs256_unknown_kid (JStr ''eyJ.id.token'') ''key-1'' [''RS256'']
       ''client-1'' ''https://idp.example.com'' =
     Inl (Exn InvalidAlgorithmError ''The specified alg value is not allowed'') \<and>
   is_InvalidTokenError InvalidAlgorithmError \<and>
   handleOAuthCallback example_config world_hs256_unknown_kid example_request =
     (error_response ''internal_error''
        (''An unexpected error occurred: '' @ str unknown_kid_error) 500,
      [RequestsPost ''https://idp.example.com/oidc/token''
         [(''grant_type'', JStr ''authorization_code''),
          (''code'', JStr ''auth-code-1''),
          (''code_verifier'', JStr ''verifier-1''),
          (''client_id'', JStr ''client-1''),
          (''client_secret'', JStr ''s3cret''),
          (''redirect_uri'', JStr ''https://app.example.com/callback'')] 10,
       GetSigningKeyFromJwt ''https://idp.example.com/oidc/jwks'' (JStr ''eyJ.id.token'')])"
  by (simp add: eval_defs)

section \<open>An exchange that fails\<close>

text \<open>
  When the provider answers with a status from 400 to 599, the answer is 500
  \<^verbatim>\<open>token_exchange_failed\<close>, and the message ends with the message of the \<^verbatim>\<open>HTTPError\<close>.
\<close>

lemma http_status_failure:
  assumes "\<not> config_missing cfg"
    and "truthy (dict_get d ''code'')" and "truthy (dict_get d ''codeVerifier'')"
    and "\<forall>url data. requests_post w url data = Inr r"
    and "400 \<le> status_code r" and "status_code r < 600"
  shows "fst (handleOAuthCallback cfg w (JObj d)) =
           error_response ''token_exchange_failed''
             (''Failed to exchange authorization code: '' @ http_error_msg r) 500"
proof -
  obtain t where "exchange_code_for_tokens cfg w (dict_get d ''code'')
      (dict_get d ''codeVerifier'') (dict_get d ''redirectUri'') =
      (Inl (Exn HTTPError (http_error_msg r)), t)"
    using assms(4-6) by (simp add: exchange_code_for_tokens_def raise_for_status_def Let_def)
  from exchange_exception [OF assms(1-3) this] show ?thesis by simp
qed

text \<open>The provider answers 400.\<close>

lemma http_400_token_exchange_failed:
  "handleOAuthCallback example_config world_http_400 example_request =
     (error_response ''token_exchange_failed''
        (''Failed to exchange authorization code: '' @
         ''400 Client Error: Bad Request for url: https://idp.example.com/oidc/token'') 500,
      [RequestsPost ''https://idp.example.com/oidc/token''
         [(''grant_type'', JStr ''authorization_code''),
          (''code'', JStr ''auth-code-1''),
          (''code_verifier'', JStr ''verifier-1''),
          (''client_id'', JStr ''client-1''),
          (''client_secret'', JStr ''s3cret''),
          (''redirect_uri'', JStr ''https://app.example.com/callback'')] 10])"
  by (simp add: eval_defs)

text \<open>
  Claim C6. Every failure of the token exchange, a status that is not a success or a
  failure of the transport such as a timeout, is to be answered 500
  \<^verbatim>\<open>token_exchange_failed\<close> with the detail of the failure. The code does not do so for a
  timeout: \<^verbatim>\<open>requests.post\<close> raises \<^verbatim>\<open>requests.Timeout\<close>, which is not a
  \<^verbatim>\<open>requests.HTTPError\<close>, and only \<^verbatim>\<open>except Exception\<close> catches it: the answer is 500
  \<^verbatim>\<open>internal_error\<close>.
\<close>

theorem timeout_internal_error:
  "\<not> is_HTTPError Timeout \<and>
   exchange_code_for_tokens example_config world_timeout (JStr ''auth-code-1'')
       (JStr ''verifier-1'') JNull =
     (Inl (Exn Timeout ''Read timed out. (read timeout=10)''),
      [RequestsPost ''https://idp.example.com/oidc/token''
         [(''grant_type'', JStr ''authorization_code''),
          (''code'', JStr ''auth-code-1''),
          (''code_verifier'', JStr ''verifier-1''),
          (''client_id'', JStr ''client-1''),
          (''client_secret'', JStr ''s3cret''),
          (''redirect_uri'', JStr ''https://app.example.com/callback'')] 10]) \<and>
   handleOAuthCallback example_config world_timeout example_request =
     (error_response ''internal_error''
        ''An unexpected error occurred: Read timed out. (read timeout=10)'' 500,
      [RequestsPost ''https://idp.example.com/oidc/token''
         [(''grant_type'', JStr ''authorization_code''),
          (''code'', JStr ''auth-code-1''),
          (''code_verifier'', JStr ''verifier-1''),
          (''client_id'', JStr ''client-1''),
          (''client_secret'', JStr ''s3cret''),
          (''redirect_uri'', JStr ''https://app.example.com/callback'')] 10])"
  by (simp add: eval_defs)

end
